theory Spec2Isabelle
  imports Complex_Main
begin

section \<open>Python values shared by the embedded modules\<close>

text \<open>
  Exceptions are values. Only the classes that the embedded code raises itself or tells
  apart are named; anything else raised by a collaborator is \<open>OtherError\<close>.
\<close>

datatype exc =
    IndexError
  | ValueError
  | ZeroDivisionError
  | AttributeError
  | FileExistsError
  | FileNotFoundError
  | UnpicklingError
  | RecursionError
  | UnboundLocalError
  | KeyboardInterrupt
  | OtherError string

section \<open>utilities/utilities.py\<close>

subsection \<open>distribute\_rng\_seeds\_to\_processes\<close>

text \<open>
  The \<open>seeds\<close> argument is \<open>Union[list, int]\<close>; \<open>isinstance(seeds, list)\<close> selects the
  branch. List indexing follows Python: a negative index counts from the end, an index out
  of range raises \<open>IndexError\<close>. Python integers are unbounded, so \<open>int\<close> is the
  HOL type \<open>int\<close> and \<open>int(seeds * process_id)\<close> is the plain product.
\<close>

datatype seeds = SeedList "int list" | SeedInt int

definition py_index :: "'a list \<Rightarrow> int \<Rightarrow> exc + 'a" where
  "py_index xs i =
     (if 0 \<le> i \<and> i < int (length xs) then Inr (xs ! nat i)
      else if i < 0 \<and> - int (length xs) \<le> i then Inr (xs ! nat (int (length xs) + i))
      else Inl IndexError)"

fun distribute_rng_seeds_to_processes :: "seeds \<Rightarrow> int \<Rightarrow> exc + int" where
  "distribute_rng_seeds_to_processes (SeedList l) process_id = py_index l process_id"
| "distribute_rng_seeds_to_processes (SeedInt s) process_id = Inr (s * process_id)"

subsection \<open>Paths and the per-process file names\<close>

text \<open>
  A \<open>pathlib.Path\<close> is its list of components; \<open>name\<close> is the last component (the empty
  string when there is none) and \<open>parent\<close> drops it. \<open>with_name\<close> raises \<open>ValueError\<close>
  on a path with an empty name and on a replacement that is empty, is \<open>.\<close> or contains the
  separator.
\<close>

type_synonym path = "string list"

definition path_name :: "path \<Rightarrow> string" where
  "path_name p = (if p = [] then [] else last p)"

definition path_parent :: "path \<Rightarrow> path" where
  "path_parent p = butlast p"

definition with_name :: "path \<Rightarrow> string \<Rightarrow> exc + path" where
  "with_name p n =
     (if path_name p = [] then Inl ValueError
      else if n = [] \<or> CHR ''/'' \<in> set n \<or> n = ''.'' then Inl ValueError
      else Inr (path_parent p @ [n]))"

text \<open>\<open>str\<close> of a Python integer: decimal digits, a leading minus sign when negative.\<close>

definition digit_char :: "nat \<Rightarrow> char" where
  "digit_char d = ''0123456789'' ! d"

fun str_nat :: "nat \<Rightarrow> string" where
  "str_nat n = (if n < 10 then [digit_char n] else str_nat (n div 10) @ [digit_char (n mod 10)])"

definition str_int :: "int \<Rightarrow> string" where
  "str_int i = (if i < 0 then CHR ''-'' # str_nat (nat (- i)) else str_nat (nat i))"

text \<open>
  \<open>append_string_to_path(path, string)\<close> is \<open>path.with_name(f"{path.name}_{string}")\<close>.
  The callers pass \<open>f"{process_id}.npy"\<close> or \<open>f"{process_id}.pkl"\<close>.
\<close>

definition append_string_to_path :: "path \<Rightarrow> string \<Rightarrow> exc + path" where
  "append_string_to_path p s = with_name p (path_name p @ ''_'' @ s)"

text \<open>
  The file system the functions touch: the directories that exist and the files with their
  contents. A file holds an array written by \<open>np.save\<close> or an object written by
  \<open>pickle.dump\<close>. \<open>os.makedirs(d, exist_ok)\<close> raises \<open>FileExistsError\<close> when \<open>d\<close>
  exists and \<open>exist_ok\<close> is false, and creates \<open>d\<close> with its ancestors otherwise.
\<close>

datatype ('c, 'o) content = Npy 'c | Pkl 'o

record ('c, 'o) fs =
  dirs :: "path list"
  files :: "path \<rightharpoonup> ('c, 'o) content"

definition ancestors :: "path \<Rightarrow> path list" where
  "ancestors d = map (\<lambda>k. take k d) [0..<Suc (length d)]"

definition makedirs :: "path \<Rightarrow> bool \<Rightarrow> ('c, 'o) fs \<Rightarrow> exc + ('c, 'o) fs" where
  "makedirs d exist_ok f =
     (if d \<in> set (dirs f) then (if exist_ok then Inr f else Inl FileExistsError)
      else Inr (f\<lparr>dirs := ancestors d @ dirs f\<rparr>))"

definition save_chain ::
  "int \<Rightarrow> path \<Rightarrow> 'c \<Rightarrow> bool \<Rightarrow> ('c, 'o) fs \<Rightarrow> exc + ('c, 'o) fs" where
  "save_chain process_id save_path mcmc_trace exist_ok f =
     (case makedirs (path_parent save_path) exist_ok f of
        Inl e \<Rightarrow> Inl e
      | Inr f1 \<Rightarrow>
          (case append_string_to_path save_path (str_int process_id @ ''.npy'') of
             Inl e \<Rightarrow> Inl e
           | Inr chain_file \<Rightarrow> Inr (f1\<lparr>files := (files f1)(chain_file \<mapsto> Npy mcmc_trace)\<rparr>)))"

definition load_chain :: "int \<Rightarrow> path \<Rightarrow> ('c, 'o) fs \<Rightarrow> exc + 'c" where
  "load_chain process_id load_path f =
     (case append_string_to_path load_path (str_int process_id @ ''.npy'') of
        Inl e \<Rightarrow> Inl e
      | Inr chain_file \<Rightarrow>
          (case files f chain_file of
             None \<Rightarrow> Inl FileNotFoundError
           | Some (Npy c) \<Rightarrow> Inr c
           | Some (Pkl _) \<Rightarrow> Inl ValueError))"

definition save_pickle ::
  "int \<Rightarrow> path \<Rightarrow> 'o \<Rightarrow> bool \<Rightarrow> ('c, 'o) fs \<Rightarrow> exc + ('c, 'o) fs" where
  "save_pickle process_id save_path obj exist_ok f =
     (case makedirs (path_parent save_path) exist_ok f of
        Inl e \<Rightarrow> Inl e
      | Inr f1 \<Rightarrow>
          (case append_string_to_path save_path (str_int process_id @ ''.pkl'') of
             Inl e \<Rightarrow> Inl e
           | Inr pkl_file \<Rightarrow> Inr (f1\<lparr>files := (files f1)(pkl_file \<mapsto> Pkl obj)\<rparr>)))"

definition load_pickle :: "int \<Rightarrow> path \<Rightarrow> ('c, 'o) fs \<Rightarrow> exc + 'o" where
  "load_pickle process_id load_path f =
     (case append_string_to_path load_path (str_int process_id @ ''.pkl'') of
        Inl e \<Rightarrow> Inl e
      | Inr pkl_file \<Rightarrow>
          (case files f pkl_file of
             None \<Rightarrow> Inl FileNotFoundError
           | Some (Pkl obj) \<Rightarrow> Inr obj
           | Some (Npy _) \<Rightarrow> Inl UnpicklingError))"

text \<open>
  \<open>save_node\<close> and \<open>save_rng_states\<close> have the same body (only the local variable names
  differ), as have \<open>load_node\<close> and \<open>load_rng_states\<close>.
\<close>

definition save_node :: "int \<Rightarrow> path \<Rightarrow> 'o \<Rightarrow> bool \<Rightarrow> ('c, 'o) fs \<Rightarrow> exc + ('c, 'o) fs" where
  "save_node = save_pickle"

definition save_rng_states :: "int \<Rightarrow> path \<Rightarrow> 'o \<Rightarrow> bool \<Rightarrow> ('c, 'o) fs \<Rightarrow> exc + ('c, 'o) fs" where
  "save_rng_states = save_pickle"

definition load_node :: "int \<Rightarrow> path \<Rightarrow> ('c, 'o) fs \<Rightarrow> exc + 'o" where
  "load_node = load_pickle"

definition load_rng_states :: "int \<Rightarrow> path \<Rightarrow> ('c, 'o) fs \<Rightarrow> exc + 'o" where
  "load_rng_states = load_pickle"

text \<open>The file name the claim of the specification gives: \<open><stem>_<i><ext>\<close>, beside the stem.\<close>

definition keyed_file :: "path \<Rightarrow> int \<Rightarrow> string \<Rightarrow> path" where
  "keyed_file p i sfx = path_parent p @ [path_name p @ ''_'' @ str_int i @ sfx]"

definition valid_stem :: "path \<Rightarrow> bool" where
  "valid_stem p = (p \<noteq> [] \<and> last p \<noteq> [] \<and> CHR ''/'' \<notin> set (last p))"


section \<open>src/mtmlda/sampling.py: data\<close>

type_synonym vec = "real list"

record SamplerSetupSettings =
  num_levels :: int
  subsampling_rates :: "int list"
  max_tree_height :: int
  underflow_threshold :: real
  rng_seed_mltree :: int
  rng_seed_node_init :: int

record SamplerRunSettings =
  num_samples :: int
  initial_state :: vec
  num_threads :: int
  print_interval :: int
  tree_render_interval :: int

text \<open>
  \<open>RNGStates\<close> holds three \<open>np.random.Generator\<close> objects. A generator is a mutable
  object, so a field holds a reference (an address into the store \<open>gens\<close> of the world
  below), not a copy of the generator's state.
\<close>

record RNGStates =
  proposal :: nat
  mltree :: nat
  node_init :: nat

text \<open>
  The attributes of an \<open>MTNode\<close> that the sampler reads and writes. The class itself is in
  the module \<open>mltree\<close>; the attributes are those of the data model of the specification.
  The tree structure (anytree's \<open>parent\<close> and \<open>children\<close>) is kept apart, as a tree of
  node identities.
\<close>

record MTNode =
  name :: string
  state :: vec
  level :: int
  subchain_index :: int
  random_draw :: real
  logposterior :: "real option"
  probability_reached :: "real option"

datatype shape = Tr nat "shape list"

fun ident :: "shape \<Rightarrow> nat" where
  "ident (Tr n cs) = n"

fun kids :: "shape \<Rightarrow> shape list" where
  "kids (Tr n cs) = cs"

text \<open>anytree's \<open>height\<close>: the number of edges on the longest path from the node to a leaf.\<close>

fun height :: "shape \<Rightarrow> nat" where
  "height (Tr n cs) = fold max (map (\<lambda>c. Suc (height c)) cs) 0"

fun ids :: "shape \<Rightarrow> nat list" where
  "ids (Tr n cs) = n # concat (map ids cs)"

text \<open>
  anytree's \<open>node.parent = None\<close>, seen from the tree under the root: the node leaves the
  child list of its parent, and its subtree goes with it. The root has no parent, so on
  the root the assignment changes nothing; on a node that is not in the tree it changes
  nothing in the tree either.
\<close>

fun detach :: "nat \<Rightarrow> shape \<Rightarrow> shape" where
  "detach n (Tr m cs) = Tr m (map (detach n) (filter (\<lambda>c. ident c \<noteq> n) cs))"

text \<open>
  anytree's \<open>LevelOrderGroupIter\<close>: the nodes level by level, each level from left to
  right, until a level is empty.
\<close>

fun nodes_at :: "nat \<Rightarrow> shape \<Rightarrow> nat list" where
  "nodes_at 0 (Tr n cs) = [n]"
| "nodes_at (Suc k) (Tr n cs) = concat (map (nodes_at k) cs)"

definition level_groups :: "shape \<Rightarrow> nat list list" where
  "level_groups t = map (\<lambda>k. nodes_at k t) [0..<Suc (height t)]"

text \<open>
  The world the sampler and its collaborators act on: the tree under the node that the
  driver calls \<open>mltree_root\<close>, the node objects by identity, the three generator references
  held by the sampler (\<open>self._ground_proposal.rng\<close>, \<open>self._mltree_modifier.rng\<close>,
  \<open>self._rng_node_init\<close>), the generator objects by address, and everything else (job
  handler, accept rate estimator, logger, visualizer, statistics) as \<open>ext\<close>.
\<close>

record ('g, 'x) world =
  tree :: shape
  attrs :: "nat \<Rightarrow> MTNode"
  next_id :: nat
  ground_proposal_rng :: nat
  mltree_modifier_rng :: nat
  rng_node_init :: nat
  gens :: "nat \<Rightarrow> 'g"
  ext :: 'x

text \<open>
  The outcome of a call: it returns a value and leaves a state, it raises and leaves a
  state, or it does not return (\<open>Hang\<close>: a loop that was given too little fuel).
\<close>

datatype ('a, 's) res = Ok 'a 's | Exn exc 's | Hang

definition bnd :: "('a, 's) res \<Rightarrow> ('a \<Rightarrow> 's \<Rightarrow> ('b, 's) res) \<Rightarrow> ('b, 's) res" where
  "bnd m f = (case m of Ok a s \<Rightarrow> f a s | Exn e s \<Rightarrow> Exn e s | Hang \<Rightarrow> Hang)"

definition on_ext ::
  "('x \<Rightarrow> ('a, 'x) res) \<Rightarrow> ('g, 'x) world \<Rightarrow> ('a, ('g, 'x) world) res" where
  "on_ext f w =
     (case f (ext w) of
        Ok a x \<Rightarrow> Ok a (w\<lparr>ext := x\<rparr>)
      | Exn e x \<Rightarrow> Exn e (w\<lparr>ext := x\<rparr>)
      | Hang \<Rightarrow> Hang)"


section \<open>src/mtmlda/sampling.py: the collaborators\<close>

text \<open>
  The modules \<open>mltree\<close>, \<open>mcmc\<close>, \<open>jobhandling\<close> and \<open>logging\<close> are called by the sampler
  and are parameters of the model: each call is a function of the world that returns,
  raises or hangs. The tree modifier, the search functions, the kernel, the estimator and
  the job handler act on the whole world. The logger and the visualizer read the tree and
  the nodes and change only their own state.
  \<^item> \<open>gen_uniform\<close> is \<open>Generator.uniform(low=0, high=1, size=None)\<close> on a generator object.
  \<^item> \<open>new_job_handler\<close> is \<open>jobhandling.JobHandler(executor, models, num_threads)\<close>.
  \<^item> \<open>get_unique_same_subchain_child\<close> returns a node or \<open>None\<close>; the node comes with the
    tree below it.
  \<^item> \<open>log_debug\<close> is \<open>_log_debug_statistics\<close>: six \<open>set_value\<close> calls on the debug
    statistics and \<open>logger.log_debug_statistics\<close>.
  \<^item> \<open>log_run\<close> is \<open>_update_run_statistics\<close> followed by \<open>logger.log_run_statistics\<close>; of
    the chain it reads the length only.
  \<^item> \<open>export_to_dot\<close> is \<open>_export_debug_tree\<close>: \<open>visualizer.export_to_dot\<close> and
    \<open>logger.print_debug_tree_export\<close>.
\<close>

record ('g, 'x) collab =
  gen_uniform :: "'g \<Rightarrow> (real, 'g) res"
  new_job_handler :: "int \<Rightarrow> ('g, 'x) world \<Rightarrow> (unit, ('g, 'x) world) res"
  workers_available :: "('g, 'x) world \<Rightarrow> bool"
  expand_tree :: "('g, 'x) world \<Rightarrow> (unit, ('g, 'x) world) res"
  update_probability_reached :: "('g, 'x) world \<Rightarrow> (unit, ('g, 'x) world) res"
  find_max_probability_node :: "('g, 'x) world \<Rightarrow> (nat option, ('g, 'x) world) res"
  submit_job :: "nat option \<Rightarrow> ('g, 'x) world \<Rightarrow> (unit, ('g, 'x) world) res"
  get_finished_jobs :: "('g, 'x) world \<Rightarrow> (real list \<times> nat list, ('g, 'x) world) res"
  update_descendants :: "nat \<Rightarrow> ('g, 'x) world \<Rightarrow> (unit, ('g, 'x) world) res"
  check_if_node_is_available_for_decision ::
    "nat \<Rightarrow> ('g, 'x) world \<Rightarrow> exc + bool \<times> bool \<times> bool"
  compute_single_level_decision :: "nat \<Rightarrow> ('g, 'x) world \<Rightarrow> (bool, ('g, 'x) world) res"
  get_same_level_parent :: "nat \<Rightarrow> ('g, 'x) world \<Rightarrow> (nat, ('g, 'x) world) res"
  compute_two_level_decision ::
    "nat \<Rightarrow> nat \<Rightarrow> ('g, 'x) world \<Rightarrow> (bool, ('g, 'x) world) res"
  estimator_update :: "bool \<Rightarrow> nat \<Rightarrow> ('g, 'x) world \<Rightarrow> (unit, ('g, 'x) world) res"
  discard_rejected_nodes :: "nat \<Rightarrow> bool \<Rightarrow> ('g, 'x) world \<Rightarrow> (unit, ('g, 'x) world) res"
  compress_resolved_subchains :: "('g, 'x) world \<Rightarrow> (unit, ('g, 'x) world) res"
  get_unique_same_subchain_child :: "('g, 'x) world \<Rightarrow> (shape option, ('g, 'x) world) res"
  print_log_header :: "'x \<Rightarrow> (unit, 'x) res"
  log_run :: "nat \<Rightarrow> 'x \<Rightarrow> (unit, 'x) res"
  log_debug :: "string \<Rightarrow> MTNode \<Rightarrow> 'x \<Rightarrow> (unit, 'x) res"
  print_debug_new_samples :: "nat \<Rightarrow> 'x \<Rightarrow> (unit, 'x) res"
  export_to_dot :: "shape \<Rightarrow> (nat \<Rightarrow> MTNode) \<Rightarrow> 'x \<Rightarrow> (unit, 'x) res"
  logger_exception :: "exc \<Rightarrow> 'x \<Rightarrow> (unit, 'x) res"


section \<open>src/mtmlda/sampling.py: MTMLDASampler\<close>

subsection \<open>get\_rngs, set\_rngs\<close>

definition get_rngs :: "('g, 'x) world \<Rightarrow> RNGStates" where
  "get_rngs w =
     \<lparr>proposal = ground_proposal_rng w, mltree = mltree_modifier_rng w,
      node_init = rng_node_init w\<rparr>"

definition set_rngs :: "RNGStates \<Rightarrow> ('g, 'x) world \<Rightarrow> ('g, 'x) world" where
  "set_rngs rng_states w =
     w\<lparr>ground_proposal_rng := proposal rng_states,
       mltree_modifier_rng := mltree rng_states,
       rng_node_init := node_init rng_states\<rparr>"

subsection \<open>\_init\_mltree\<close>

text \<open>
  A new node object gets the next free identity. Its \<open>logposterior\<close> and
  \<open>probability_reached\<close> are unset. The draw mutates the generator object that
  \<open>self._rng_node_init\<close> refers to.
\<close>

definition init_mltree ::
  "('g, 'x) collab \<Rightarrow> SamplerSetupSettings \<Rightarrow> vec \<Rightarrow> ('g, 'x) world
    \<Rightarrow> (unit, ('g, 'x) world) res" where
  "init_mltree C S initial w =
     (let a = rng_node_init w in
      case gen_uniform C (gens w a) of
        Hang \<Rightarrow> Hang
      | Exn e g \<Rightarrow> Exn e (w\<lparr>gens := (gens w)(a := g)\<rparr>)
      | Ok u g \<Rightarrow>
          (let n = next_id w in
           Ok () (w\<lparr>tree := Tr n [],
                   attrs := (attrs w)(n :=
                     \<lparr>name = ''a'', state = initial, level = num_levels S - 1,
                      subchain_index = 0, random_draw = u, logposterior = None,
                      probability_reached = None\<rparr>),
                   next_id := Suc n,
                   gens := (gens w)(a := g)\<rparr>)))"

subsection \<open>Logging helpers\<close>

definition export_debug_tree :: "('g, 'x) collab \<Rightarrow> ('g, 'x) world \<Rightarrow> (unit, ('g, 'x) world) res" where
  "export_debug_tree C w = on_ext (export_to_dot C (tree w) (attrs w)) w"

definition log_debug_statistics ::
  "('g, 'x) collab \<Rightarrow> string \<Rightarrow> nat \<Rightarrow> ('g, 'x) world \<Rightarrow> (unit, ('g, 'x) world) res" where
  "log_debug_statistics C info n w = on_ext (log_debug C info (attrs w n)) w"

text \<open>
  \<open>find_max_probability_node\<close> may return \<open>None\<close>; \<open>_update_debug_statistics\<close> then reads
  \<open>node.level\<close> of \<open>None\<close>, an \<open>AttributeError\<close>.
\<close>

definition log_debug_candidate ::
  "('g, 'x) collab \<Rightarrow> string \<Rightarrow> nat option \<Rightarrow> ('g, 'x) world \<Rightarrow> (unit, ('g, 'x) world) res" where
  "log_debug_candidate C info cand w =
     (case cand of None \<Rightarrow> Exn AttributeError w | Some n \<Rightarrow> log_debug_statistics C info n w)"

text \<open>
  \<open>_log_run_statistics\<close>: \<open>len(mcmc_chain) % self._print_interval\<close> is evaluated first and
  raises \<open>ZeroDivisionError\<close> when the interval is zero.
\<close>

definition log_run_statistics ::
  "('g, 'x) collab \<Rightarrow> SamplerRunSettings \<Rightarrow> nat \<Rightarrow> ('g, 'x) world
    \<Rightarrow> (unit, ('g, 'x) world) res" where
  "log_run_statistics C R len w =
     (if print_interval R = 0 then Exn ZeroDivisionError w
      else if int len mod print_interval R = 0 \<or> int len = num_samples R
        then on_ext (log_run C len) w
      else Ok () w)"

definition str_bool :: "bool \<Rightarrow> string" where
  "str_bool b = (if b then ''True'' else ''False'')"

subsection \<open>\_extend\_tree\_and\_launch\_jobs\<close>

definition may_extend :: "('g, 'x) collab \<Rightarrow> SamplerSetupSettings \<Rightarrow> ('g, 'x) world \<Rightarrow> bool" where
  "may_extend C S w =
     (int (height (tree w)) \<le> max_tree_height S \<and> workers_available C w)"

definition extend_once ::
  "('g, 'x) collab \<Rightarrow> ('g, 'x) world \<Rightarrow> (unit, ('g, 'x) world) res" where
  "extend_once C w =
     bnd (expand_tree C w) (\<lambda>_ w1.
     bnd (update_probability_reached C w1) (\<lambda>_ w2.
     bnd (find_max_probability_node C w2) (\<lambda>new_candidate w3.
     bnd (submit_job C new_candidate w3) (\<lambda>_ w4.
     bnd (log_debug_candidate C ''submitted'' new_candidate w4) (\<lambda>_ w5.
     export_debug_tree C w5)))))"

fun extend_tree_and_launch_jobs ::
  "('g, 'x) collab \<Rightarrow> SamplerSetupSettings \<Rightarrow> nat \<Rightarrow> ('g, 'x) world
    \<Rightarrow> (unit, ('g, 'x) world) res" where
  "extend_tree_and_launch_jobs C S 0 w = (if may_extend C S w then Hang else Ok () w)"
| "extend_tree_and_launch_jobs C S (Suc k) w =
     (if may_extend C S w
      then bnd (extend_once C w) (\<lambda>_ w1. extend_tree_and_launch_jobs C S k w1)
      else Ok () w)"

subsection \<open>\_update\_tree\_from\_finished\_jobs\<close>

definition set_logposterior :: "nat \<Rightarrow> real \<Rightarrow> ('g, 'x) world \<Rightarrow> ('g, 'x) world" where
  "set_logposterior n r w = w\<lparr>attrs := (attrs w)(n := (attrs w n)\<lparr>logposterior := Some r\<rparr>)\<rparr>"

definition set_parent_None :: "nat \<Rightarrow> ('g, 'x) world \<Rightarrow> ('g, 'x) world" where
  "set_parent_None n w = w\<lparr>tree := detach n (tree w)\<rparr>"

text \<open>The body of the \<open>for result, node in zip(results, nodes)\<close> loop.\<close>

definition update_from_job ::
  "('g, 'x) collab \<Rightarrow> SamplerSetupSettings \<Rightarrow> real \<Rightarrow> nat \<Rightarrow> ('g, 'x) world
    \<Rightarrow> (unit, ('g, 'x) world) res" where
  "update_from_job C S result n w =
     bnd (if result < underflow_threshold S
          then log_debug_statistics C ''discarded'' n (set_parent_None n w)
          else bnd (update_descendants C n (set_logposterior n result w))
                 (\<lambda>_ w1. log_debug_statistics C ''returned'' n w1))
       (\<lambda>_ w2. export_debug_tree C w2)"

fun update_from_jobs ::
  "('g, 'x) collab \<Rightarrow> SamplerSetupSettings \<Rightarrow> (real \<times> nat) list \<Rightarrow> ('g, 'x) world
    \<Rightarrow> (unit, ('g, 'x) world) res" where
  "update_from_jobs C S [] w = Ok () w"
| "update_from_jobs C S ((result, n) # jobs) w =
     bnd (update_from_job C S result n w) (\<lambda>_ w1. update_from_jobs C S jobs w1)"

definition update_tree_from_finished_jobs ::
  "('g, 'x) collab \<Rightarrow> SamplerSetupSettings \<Rightarrow> ('g, 'x) world
    \<Rightarrow> (unit, ('g, 'x) world) res" where
  "update_tree_from_finished_jobs C S w =
     bnd (get_finished_jobs C w) (\<lambda>(results, nodes) w1.
       update_from_jobs C S (zip results nodes) w1)"


subsection \<open>\_compute\_available\_mcmc\_decisions\<close>

text \<open>
  One pass of the two nested \<open>for\<close> loops: the nodes in level order, up to the first one
  that is available for a decision.
\<close>

fun scan_for_decision ::
  "('g, 'x) collab \<Rightarrow> nat list \<Rightarrow> ('g, 'x) world \<Rightarrow> exc + (nat \<times> bool \<times> bool) option" where
  "scan_for_decision C [] w = Inr None"
| "scan_for_decision C (n # ns) w =
     (case check_if_node_is_available_for_decision C n w of
        Inl e \<Rightarrow> Inl e
      | Inr (node_available_for_decision, is_ground_level_decision, is_two_level_decision) \<Rightarrow>
          if node_available_for_decision
          then Inr (Some (n, is_ground_level_decision, is_two_level_decision))
          else scan_for_decision C ns w)"

text \<open>
  The local variable \<open>accepted\<close> is assigned in the two branches only. When a node is
  available and neither flag is set, the value of an earlier pass of the \<open>while\<close> loop
  is used, and without one the read raises \<open>UnboundLocalError\<close>.
\<close>

definition decide ::
  "('g, 'x) collab \<Rightarrow> bool option \<Rightarrow> nat \<Rightarrow> bool \<Rightarrow> bool \<Rightarrow> ('g, 'x) world
    \<Rightarrow> (bool option, ('g, 'x) world) res" where
  "decide C prev n is_ground_level_decision is_two_level_decision w =
     (if is_ground_level_decision then
        bnd (compute_single_level_decision C n w) (\<lambda>accepted w1.
        bnd (log_debug_statistics C (''1lmcmc: '' @ str_bool accepted) n w1) (\<lambda>_ w2.
        Ok (Some accepted) w2))
      else if is_two_level_decision then
        bnd (get_same_level_parent C n w) (\<lambda>same_level_parent w1.
        bnd (compute_two_level_decision C n same_level_parent w1) (\<lambda>accepted w2.
        bnd (log_debug_statistics C (''2lmcmc: '' @ str_bool accepted) n w2) (\<lambda>_ w3.
        Ok (Some accepted) w3)))
      else Ok prev w)"

definition apply_decision ::
  "('g, 'x) collab \<Rightarrow> bool option \<Rightarrow> nat \<Rightarrow> bool \<Rightarrow> bool \<Rightarrow> ('g, 'x) world
    \<Rightarrow> (bool option, ('g, 'x) world) res" where
  "apply_decision C prev n g t w =
     bnd (decide C prev n g t w) (\<lambda>acc w1.
       case acc of
         None \<Rightarrow> Exn UnboundLocalError w1
       | Some accepted \<Rightarrow>
           bnd (estimator_update C accepted n w1) (\<lambda>_ w2.
           bnd (discard_rejected_nodes C n accepted w2) (\<lambda>_ w3.
           bnd (export_debug_tree C w3) (\<lambda>_ w4.
           Ok (Some accepted) w4))))"

fun decisions_loop ::
  "('g, 'x) collab \<Rightarrow> nat \<Rightarrow> bool option \<Rightarrow> ('g, 'x) world \<Rightarrow> (unit, ('g, 'x) world) res" where
  "decisions_loop C 0 prev w =
     (case scan_for_decision C (concat (level_groups (tree w))) w of
        Inl e \<Rightarrow> Exn e w
      | Inr None \<Rightarrow> Ok () w
      | Inr (Some _) \<Rightarrow> Hang)"
| "decisions_loop C (Suc k) prev w =
     (case scan_for_decision C (concat (level_groups (tree w))) w of
        Inl e \<Rightarrow> Exn e w
      | Inr None \<Rightarrow> Ok () w
      | Inr (Some (n, g, t)) \<Rightarrow>
          bnd (apply_decision C prev n g t w) (\<lambda>acc w1. decisions_loop C k acc w1))"

definition compute_available_mcmc_decisions ::
  "('g, 'x) collab \<Rightarrow> nat \<Rightarrow> ('g, 'x) world \<Rightarrow> (unit, ('g, 'x) world) res" where
  "compute_available_mcmc_decisions C fuel w = decisions_loop C fuel None w"

subsection \<open>\_propagate\_chain\<close>

text \<open>
  The driver's own state: the chain (a Python list, mutated in place, so what was appended
  stays appended when a later call raises), the world, and \<open>root_log\<close>. The last one is
  not in the program: it records, for the proofs, the world at each moment at which an
  entry of the chain was produced. \<open>root_state w\<close> is \<open>mltree_root.state\<close> in the world
  \<open>w\<close>.
\<close>

record ('g, 'x) driver =
  mcmc_chain :: "vec list"
  root_log :: "('g, 'x) world list"
  wld :: "('g, 'x) world"

definition root_state :: "('g, 'x) world \<Rightarrow> vec" where
  "root_state w = state (attrs w (ident (tree w)))"

text \<open>
  \<open>lift d outer m\<close> runs a call on the world of the driver state \<open>d\<close>. \<open>outer\<close> is the
  tree under the node that the caller's variable \<open>mltree_root\<close> still refers to when
  \<open>_propagate_chain\<close> has rebound its own: that tree is what the caller sees if the call
  raises.
\<close>

definition lift ::
  "('g, 'x) driver \<Rightarrow> shape option \<Rightarrow> ('a, ('g, 'x) world) res \<Rightarrow> ('a, ('g, 'x) driver) res" where
  "lift d outer m =
     (case m of
        Ok a w \<Rightarrow> Ok a (d\<lparr>wld := w\<rparr>)
      | Exn e w \<Rightarrow> Exn e (d\<lparr>wld := (case outer of None \<Rightarrow> w | Some t \<Rightarrow> w\<lparr>tree := t\<rparr>)\<rparr>)
      | Hang \<Rightarrow> Hang)"

definition append_root_state :: "('g, 'x) driver \<Rightarrow> ('g, 'x) driver" where
  "append_root_state d =
     d\<lparr>mcmc_chain := mcmc_chain d @ [root_state (wld d)],
       root_log := root_log d @ [wld d]\<rparr>"

definition promote :: "shape \<Rightarrow> ('g, 'x) driver \<Rightarrow> ('g, 'x) driver" where
  "promote unique_child d = d\<lparr>wld := (wld d)\<lparr>tree := unique_child\<rparr>\<rparr>"

definition outer_after :: "shape option \<Rightarrow> shape \<Rightarrow> ('g, 'x) driver \<Rightarrow> shape option" where
  "outer_after outer unique_child d =
     (case outer of
        None \<Rightarrow> Some (detach (ident unique_child) (tree (wld d)))
      | Some t \<Rightarrow> Some t)"

fun propagate_chain ::
  "('g, 'x) collab \<Rightarrow> SamplerRunSettings \<Rightarrow> nat \<Rightarrow> shape option \<Rightarrow> ('g, 'x) driver
    \<Rightarrow> (unit, ('g, 'x) driver) res" where
  "propagate_chain C R 0 outer d =
     bnd (lift d outer (get_unique_same_subchain_child C (wld d))) (\<lambda>unique_child d1.
       case unique_child of None \<Rightarrow> Ok () d1 | Some _ \<Rightarrow> Hang)"
| "propagate_chain C R (Suc k) outer d =
     bnd (lift d outer (get_unique_same_subchain_child C (wld d))) (\<lambda>unique_child d1.
       case unique_child of
         None \<Rightarrow> Ok () d1
       | Some c \<Rightarrow>
           (let d2 = append_root_state d1 in
            bnd (lift d2 outer (log_run_statistics C R (length (mcmc_chain d2)) (wld d2)))
              (\<lambda>_ d3.
                 let outer' = outer_after outer c d3; d4 = promote c d3 in
                 bnd (lift d4 outer'
                        (on_ext (print_debug_new_samples C (length (mcmc_chain d4))) (wld d4)))
                   (\<lambda>_ d5.
                 bnd (lift d5 outer' (export_debug_tree C (wld d5)))
                   (\<lambda>_ d6. propagate_chain C R k outer' d6)))))"

subsection \<open>run\<close>

definition iteration_phases ::
  "('g, 'x) collab \<Rightarrow> SamplerSetupSettings \<Rightarrow> nat \<Rightarrow> ('g, 'x) world
    \<Rightarrow> (unit, ('g, 'x) world) res" where
  "iteration_phases C S fuel w =
     bnd (extend_tree_and_launch_jobs C S fuel w) (\<lambda>_ w1.
     bnd (update_tree_from_finished_jobs C S w1) (\<lambda>_ w2.
     bnd (compute_available_mcmc_decisions C fuel w2) (\<lambda>_ w3.
     compress_resolved_subchains C w3)))"

text \<open>One pass of the \<open>while True\<close> loop, up to the test of the chain length.\<close>

definition iteration ::
  "('g, 'x) collab \<Rightarrow> SamplerSetupSettings \<Rightarrow> SamplerRunSettings \<Rightarrow> nat \<Rightarrow> ('g, 'x) driver
    \<Rightarrow> (unit, ('g, 'x) driver) res" where
  "iteration C S R fuel d =
     bnd (lift d None (iteration_phases C S fuel (wld d))) (\<lambda>_ d1.
       propagate_chain C R fuel None d1)"

text \<open>
  The \<open>while True\<close> loop. Each pass takes one unit of fuel and lends what it has to the
  loops inside it.
\<close>

fun main_loop ::
  "('g, 'x) collab \<Rightarrow> SamplerSetupSettings \<Rightarrow> SamplerRunSettings \<Rightarrow> nat \<Rightarrow> ('g, 'x) driver
    \<Rightarrow> (unit, ('g, 'x) driver) res" where
  "main_loop C S R 0 d = Hang"
| "main_loop C S R (Suc k) d =
     bnd (iteration C S R (Suc k) d) (\<lambda>_ d2.
       if num_samples R \<le> int (length (mcmc_chain d2)) then Ok () d2
       else main_loop C S R k d2)"

text \<open>
  The body of the \<open>try\<close> statement. \<open>ThreadPoolExecutor(max_workers=num_threads)\<close> raises
  \<open>ValueError\<close> for a number of threads that is not positive.
\<close>

definition try_body ::
  "('g, 'x) collab \<Rightarrow> SamplerSetupSettings \<Rightarrow> SamplerRunSettings \<Rightarrow> nat \<Rightarrow> ('g, 'x) driver
    \<Rightarrow> (unit, ('g, 'x) driver) res" where
  "try_body C S R fuel d =
     (if num_threads R \<le> 0 then Exn ValueError d
      else
        bnd (lift d None (new_job_handler C (num_threads R) (wld d))) (\<lambda>_ d1.
        bnd (lift d1 None (on_ext (print_log_header C) (wld d1))) (\<lambda>_ d2.
        bnd (lift d2 None (on_ext (log_run C (length (mcmc_chain d2))) (wld d2))) (\<lambda>_ d3.
        main_loop C S R fuel d3))))"

text \<open>
  The \<open>except BaseException\<close> handler: it logs the exception and exports the tree, and
  logs a \<open>RecursionError\<close> of the export. Whatever it does, \<open>finally: return mcmc_chain\<close>
  follows.
\<close>

definition handler ::
  "('g, 'x) collab \<Rightarrow> exc \<Rightarrow> ('g, 'x) world \<Rightarrow> (unit, ('g, 'x) world) res" where
  "handler C e w =
     bnd (on_ext (logger_exception C e) w) (\<lambda>_ w1.
       case export_debug_tree C w1 of
         Exn e2 w2 \<Rightarrow>
           (if e2 = RecursionError then on_ext (logger_exception C e2) w2 else Exn e2 w2)
       | r \<Rightarrow> r)"

datatype outcome = Returned "vec list" | Propagated exc | NoReturn

definition start :: "SamplerRunSettings \<Rightarrow> ('g, 'x) world \<Rightarrow> ('g, 'x) driver" where
  "start R w =
     \<lparr>mcmc_chain = [initial_state R], root_log = [w], wld = w\<rparr>"

definition run ::
  "('g, 'x) collab \<Rightarrow> SamplerSetupSettings \<Rightarrow> SamplerRunSettings \<Rightarrow> nat \<Rightarrow> ('g, 'x) world
    \<Rightarrow> outcome" where
  "run C S R fuel w =
     (case init_mltree C S (initial_state R) w of
        Hang \<Rightarrow> NoReturn
      | Exn e w1 \<Rightarrow> Propagated e
      | Ok _ w1 \<Rightarrow>
          (case try_body C S R fuel (start R w1) of
             Hang \<Rightarrow> NoReturn
           | Ok _ d \<Rightarrow> Returned (mcmc_chain d)
           | Exn e d \<Rightarrow>
               (case handler C e (wld d) of
                  Hang \<Rightarrow> NoReturn
                | _ \<Rightarrow> Returned (mcmc_chain d))))"


text \<open>
  A run completes normally when the tree is initialised and the body of the \<open>try\<close>
  statement returns: no exception and no hang.
\<close>

definition completes_normally ::
  "('g, 'x) collab \<Rightarrow> SamplerSetupSettings \<Rightarrow> SamplerRunSettings \<Rightarrow> nat \<Rightarrow> ('g, 'x) world
    \<Rightarrow> bool" where
  "completes_normally C S R fuel w =
     (case init_mltree C S (initial_state R) w of
        Ok _ w1 \<Rightarrow> (case try_body C S R fuel (start R w1) of Ok _ _ \<Rightarrow> True | _ \<Rightarrow> False)
      | _ \<Rightarrow> False)"

text \<open>
  \<open>res_all P r\<close>: the state left by the call, if it left one, satisfies \<open>P\<close>.
  \<open>grows d d'\<close>: the chain of \<open>d'\<close> is the chain of \<open>d\<close> with entries appended, each
  the state of the root in the world logged with it.
\<close>

definition res_all :: "('s \<Rightarrow> bool) \<Rightarrow> ('a, 's) res \<Rightarrow> bool" where
  "res_all P r = (case r of Ok _ s \<Rightarrow> P s | Exn _ s \<Rightarrow> P s | Hang \<Rightarrow> True)"

definition grows :: "('g, 'x) driver \<Rightarrow> ('g, 'x) driver \<Rightarrow> bool" where
  "grows d d' =
     (\<exists>ws. mcmc_chain d' = mcmc_chain d @ map root_state ws \<and> root_log d' = root_log d @ ws)"

section \<open>The collaborators, modelled from the specification\<close>

text \<open>
  Modelled from the spec: the modules \<open>mltree\<close>, \<open>mcmc\<close>, \<open>jobhandling\<close> and \<open>logging\<close>
  are missing from the sources. The definitions of this section follow sections 3 and 4
  of the specification and give one concrete collaborator set, \<open>ref_collab\<close>, on which the
  sampler above can be run. A generator is a counter; the job handler keeps the nodes in
  flight, the number of workers and the accept rate estimates.
\<close>

record handler_state =
  in_flight :: "nat list"
  workers :: nat
  accept_rates :: "real list"
  eta :: real

type_synonym rworld = "(nat, handler_state) world"

text \<open>Modelled from the spec: a uniform value in [0,1), fixed by the state of the generator.\<close>

definition ref_uniform :: "nat \<Rightarrow> (real, nat) res" where
  "ref_uniform g = Ok (real (g mod 4) / 4) (Suc g)"

definition draw :: "(nat \<Rightarrow> (real, nat) res) \<Rightarrow> nat \<Rightarrow> rworld \<Rightarrow> (real, rworld) res" where
  "draw uniform a w =
     (case uniform (gens w a) of
        Hang \<Rightarrow> Hang
      | Exn e g \<Rightarrow> Exn e (w\<lparr>gens := (gens w)(a := g)\<rparr>)
      | Ok u g \<Rightarrow> Ok u (w\<lparr>gens := (gens w)(a := g)\<rparr>))"

text \<open>
  Modelled from the spec (4.4): \<open>workers_available\<close> is true iff at least one worker is
  idle; \<open>submit_job\<close> marks the node as pending and silently rejects the submission when
  no worker is available; \<open>get_finished_jobs\<close> returns the results and nodes of the
  evaluations that have completed, in completion order. Here every evaluation in flight
  has completed at the next harvest, in the order of submission, and an evaluation is
  \<open>models[node.level](node.state)\<close>.
\<close>

definition ref_new_job_handler :: "int \<Rightarrow> rworld \<Rightarrow> (unit, rworld) res" where
  "ref_new_job_handler k w = Ok () (w\<lparr>ext := (ext w)\<lparr>in_flight := [], workers := nat k\<rparr>\<rparr>)"

definition ref_workers_available :: "rworld \<Rightarrow> bool" where
  "ref_workers_available w = (length (in_flight (ext w)) < workers (ext w))"

definition ref_submit_job :: "nat option \<Rightarrow> rworld \<Rightarrow> (unit, rworld) res" where
  "ref_submit_job cand w =
     (case cand of
        None \<Rightarrow> Exn AttributeError w
      | Some n \<Rightarrow>
          if ref_workers_available w
          then Ok () (w\<lparr>ext := (ext w)\<lparr>in_flight := in_flight (ext w) @ [n]\<rparr>\<rparr>)
          else Ok () w)"

definition ref_get_finished_jobs ::
  "(int \<Rightarrow> vec \<Rightarrow> real) \<Rightarrow> rworld \<Rightarrow> (real list \<times> nat list, rworld) res" where
  "ref_get_finished_jobs models w =
     (let nodes = in_flight (ext w);
          results = map (\<lambda>n. models (level (attrs w n)) (state (attrs w n))) nodes
      in Ok (results, nodes) (w\<lparr>ext := (ext w)\<lparr>in_flight := []\<rparr>\<rparr>))"

text \<open>
  Modelled from the spec (4.1, \<open>expand_tree\<close>): for every leaf that has no pending
  evaluation, a child is created. If the leaf's level is above 0 and its subchain index is
  below the subsampling rate of its level, the child is at the level below, with subchain
  index 0 and the leaf's state; otherwise the child is at the same level with the next
  subchain index and a state drawn by the proposal from the leaf's state. The child gets a
  fresh \<open>random_draw\<close> from the node-init generator and no \<open>logposterior\<close>. The proposal
  here moves every coordinate by one draw of the proposal generator, centred.
\<close>

fun leaves :: "shape \<Rightarrow> nat list" where
  "leaves (Tr n cs) = (if cs = [] then [n] else concat (map leaves cs))"

fun add_child :: "nat \<Rightarrow> nat \<Rightarrow> shape \<Rightarrow> shape" where
  "add_child p k (Tr n cs) =
     (if n = p then Tr n (cs @ [Tr k []]) else Tr n (map (add_child p k) cs))"

definition attach :: "nat \<Rightarrow> MTNode \<Rightarrow> rworld \<Rightarrow> rworld" where
  "attach leaf node w =
     w\<lparr>tree := add_child leaf (next_id w) (tree w),
       attrs := (attrs w)(next_id w := node),
       next_id := Suc (next_id w)\<rparr>"

definition spawn :: "SamplerSetupSettings \<Rightarrow> nat \<Rightarrow> rworld \<Rightarrow> (unit, rworld) res" where
  "spawn S leaf w =
     (let p = attrs w leaf in
      case py_index (subsampling_rates S) (level p) of
        Inl e \<Rightarrow> Exn e w
      | Inr rate \<Rightarrow>
          bnd (draw ref_uniform (rng_node_init w) w) (\<lambda>u w1.
            if 0 < level p \<and> subchain_index p < rate
            then Ok () (attach leaf
                   \<lparr>name = name p @ ''a'', state = state p, level = level p - 1,
                    subchain_index = 0, random_draw = u, logposterior = None,
                    probability_reached = None\<rparr> w1)
            else bnd (draw ref_uniform (ground_proposal_rng w1) w1) (\<lambda>v w2.
                   Ok () (attach leaf
                     \<lparr>name = name p @ ''a'', state = map (\<lambda>x. x + (v - 1 / 2)) (state p),
                      level = level p, subchain_index = subchain_index p + 1,
                      random_draw = u, logposterior = None,
                      probability_reached = None\<rparr> w2))))"

fun spawn_all :: "SamplerSetupSettings \<Rightarrow> nat list \<Rightarrow> rworld \<Rightarrow> (unit, rworld) res" where
  "spawn_all S [] w = Ok () w"
| "spawn_all S (leaf # ls) w = bnd (spawn S leaf w) (\<lambda>_ w1. spawn_all S ls w1)"

definition ref_expand_tree :: "SamplerSetupSettings \<Rightarrow> rworld \<Rightarrow> (unit, rworld) res" where
  "ref_expand_tree S w =
     spawn_all S (filter (\<lambda>n. n \<notin> set (in_flight (ext w))) (leaves (tree w))) w"

text \<open>
  Modelled from the spec (4.1, \<open>update_probability_reached\<close>): the root has probability 1;
  a node's probability is the product, along the path from the root, of the estimator's
  current accept rates of the levels of the nodes on the path.
\<close>

definition rate_of :: "real list \<Rightarrow> int \<Rightarrow> real" where
  "rate_of rates l = (case py_index rates l of Inl _ \<Rightarrow> 0 | Inr r \<Rightarrow> r)"

fun set_reached :: "real list \<Rightarrow> real \<Rightarrow> shape \<Rightarrow> (nat \<Rightarrow> MTNode) \<Rightarrow> (nat \<Rightarrow> MTNode)" where
  "set_reached rates q (Tr n cs) a =
     fold (\<lambda>c a'. set_reached rates (q * rate_of rates (level (a (ident c)))) c a') cs
       (a(n := (a n)\<lparr>probability_reached := Some q\<rparr>))"

definition ref_update_probability_reached :: "rworld \<Rightarrow> (unit, rworld) res" where
  "ref_update_probability_reached w =
     Ok () (w\<lparr>attrs := set_reached (accept_rates (ext w)) 1 (tree w) (attrs w)\<rparr>)"

text \<open>
  Modelled from the spec (4.2, \<open>find_max_probability_node\<close>): among the leaves with no
  \<open>logposterior\<close> and no pending evaluation, the one with the greatest
  \<open>probability_reached\<close>; of equals, the first in level order.
\<close>

definition reached :: "rworld \<Rightarrow> nat \<Rightarrow> real" where
  "reached w n = (case probability_reached (attrs w n) of None \<Rightarrow> 0 | Some q \<Rightarrow> q)"

fun arg_max_first :: "(nat \<Rightarrow> real) \<Rightarrow> nat list \<Rightarrow> nat option" where
  "arg_max_first f [] = None"
| "arg_max_first f (n # ns) =
     (case arg_max_first f ns of
        None \<Rightarrow> Some n
      | Some m \<Rightarrow> if f n < f m then Some m else Some n)"

definition ref_find_max_probability_node :: "rworld \<Rightarrow> (nat option, rworld) res" where
  "ref_find_max_probability_node w =
     Ok (arg_max_first (reached w)
           (filter (\<lambda>n. n \<in> set (leaves (tree w)) \<and> logposterior (attrs w n) = None
                        \<and> n \<notin> set (in_flight (ext w)))
              (concat (level_groups (tree w))))) w"


text \<open>
  Modelled from the spec (4.2): \<open>get_same_level_parent\<close> is the nearest ancestor with the
  same level. \<open>check_if_node_is_available_for_decision\<close> returns (ready, single level,
  two level): a node is ready when its own \<open>logposterior\<close> and those of the nodes it is
  compared with are known; the decision is single level at level 0 and two level above.
\<close>

fun ancestors_of :: "nat \<Rightarrow> shape \<Rightarrow> nat list" where
  "ancestors_of n (Tr m cs) =
     (if n \<in> set (concat (map ids cs)) then concat (map (ancestors_of n) cs) @ [m] else [])"

definition parent_of :: "nat \<Rightarrow> shape \<Rightarrow> nat option" where
  "parent_of n t = (case ancestors_of n t of [] \<Rightarrow> None | p # _ \<Rightarrow> Some p)"

definition same_level_parent_of :: "rworld \<Rightarrow> nat \<Rightarrow> nat option" where
  "same_level_parent_of w n =
     List.find (\<lambda>a. level (attrs w a) = level (attrs w n)) (ancestors_of n (tree w))"

definition known :: "rworld \<Rightarrow> nat \<Rightarrow> bool" where
  "known w n = (logposterior (attrs w n) \<noteq> None)"

definition ref_check :: "nat \<Rightarrow> rworld \<Rightarrow> exc + bool \<times> bool \<times> bool" where
  "ref_check n w =
     (case parent_of n (tree w) of
        None \<Rightarrow> Inr (False, False, False)
      | Some p \<Rightarrow>
          if level (attrs w n) = 0 then Inr (known w n \<and> known w p, True, False)
          else (case same_level_parent_of w n of
                  None \<Rightarrow> Inr (False, False, True)
                | Some q \<Rightarrow> Inr (known w n \<and> known w q \<and> known w p, False, True)))"

definition ref_get_same_level_parent :: "nat \<Rightarrow> rworld \<Rightarrow> (nat, rworld) res" where
  "ref_get_same_level_parent n w =
     (case same_level_parent_of w n of None \<Rightarrow> Exn AttributeError w | Some q \<Rightarrow> Ok q w)"

text \<open>
  Modelled from the spec (4.3): the single level decision accepts iff
  \<open>random_draw < exp (logposterior node - logposterior parent)\<close>. The two level decision
  accepts iff \<open>random_draw < r\<close> with r the ratio of the fine posteriors of the new and the
  old state, corrected by the coarse ones; the coarse posterior of the new state is read
  from the node's parent, that of the old state from the first child of the same level
  parent. A missing \<open>logposterior\<close> is a \<open>None\<close> in the arithmetic, an error.
\<close>

definition logp :: "rworld \<Rightarrow> nat \<Rightarrow> (real, rworld) res" where
  "logp w n = (case logposterior (attrs w n) of None \<Rightarrow> Exn AttributeError w | Some l \<Rightarrow> Ok l w)"

definition ref_single_level_decision :: "nat \<Rightarrow> rworld \<Rightarrow> (bool, rworld) res" where
  "ref_single_level_decision n w =
     (case parent_of n (tree w) of
        None \<Rightarrow> Exn AttributeError w
      | Some p \<Rightarrow>
          bnd (logp w n) (\<lambda>ln _. bnd (logp w p) (\<lambda>lp _.
            Ok (random_draw (attrs w n) < exp (ln - lp)) w)))"

definition first_child :: "nat \<Rightarrow> shape \<Rightarrow> nat option" where
  "first_child q t = List.find (\<lambda>c. parent_of c t = Some q) (ids t)"

definition ref_two_level_decision :: "nat \<Rightarrow> nat \<Rightarrow> rworld \<Rightarrow> (bool, rworld) res" where
  "ref_two_level_decision n q w =
     (case (parent_of n (tree w), first_child q (tree w)) of
        (Some p, Some c) \<Rightarrow>
          bnd (logp w n) (\<lambda>fine_new _. bnd (logp w q) (\<lambda>fine_old _.
          bnd (logp w p) (\<lambda>coarse_new _. bnd (logp w c) (\<lambda>coarse_old _.
            Ok (random_draw (attrs w n)
                  < exp ((fine_new + coarse_old) - (fine_old + coarse_new))) w))))
      | _ \<Rightarrow> Exn AttributeError w)"

text \<open>
  Modelled from the spec (3, accept rate estimator): on a decision at level l the estimate
  becomes \<open>(1 - eta) * alpha_l + eta\<close> when accepted and \<open>(1 - eta) * alpha_l\<close> otherwise.
\<close>

definition ref_estimator_update :: "bool \<Rightarrow> nat \<Rightarrow> rworld \<Rightarrow> (unit, rworld) res" where
  "ref_estimator_update accepted n w =
     (let l = level (attrs w n); x = ext w in
      if 0 \<le> l \<and> l < int (length (accept_rates x))
      then Ok () (w\<lparr>ext := x\<lparr>accept_rates := (accept_rates x)[nat l :=
                      (1 - eta x) * (accept_rates x ! nat l) + eta x * (if accepted then 1 else 0)]\<rparr>\<rparr>)
      else Exn IndexError w)"

text \<open>
  Modelled from the spec (4.1): \<open>discard_rejected_nodes\<close> detaches the branch that was not
  chosen: the siblings of an accepted node, the node itself when it was rejected.
  \<open>update_descendants\<close> and \<open>compress_resolved_subchains\<close> recompute derived data and
  metadata only; the nodes here carry none, so they leave the world as it is.
\<close>

definition siblings_of :: "nat \<Rightarrow> shape \<Rightarrow> nat list" where
  "siblings_of n t = filter (\<lambda>c. c \<noteq> n \<and> parent_of c t = parent_of n t \<and> parent_of n t \<noteq> None) (ids t)"

definition ref_discard_rejected_nodes :: "nat \<Rightarrow> bool \<Rightarrow> rworld \<Rightarrow> (unit, rworld) res" where
  "ref_discard_rejected_nodes n accepted w =
     (if accepted then Ok () (w\<lparr>tree := fold detach (siblings_of n (tree w)) (tree w)\<rparr>)
      else Ok () (w\<lparr>tree := detach n (tree w)\<rparr>))"

text \<open>
  Modelled from the spec (4.2): \<open>get_unique_same_subchain_child\<close> returns the child when
  the root has exactly one child, and none otherwise.
\<close>

definition ref_get_unique_same_subchain_child :: "rworld \<Rightarrow> (shape option, rworld) res" where
  "ref_get_unique_same_subchain_child w =
     (case kids (tree w) of [c] \<Rightarrow> Ok (Some c) w | _ \<Rightarrow> Ok None w)"

text \<open>The logger and the visualizer write files only; their own state is not modelled.\<close>

definition quiet :: "handler_state \<Rightarrow> (unit, handler_state) res" where
  "quiet x = Ok () x"

definition ref_collab ::
  "SamplerSetupSettings \<Rightarrow> (int \<Rightarrow> vec \<Rightarrow> real) \<Rightarrow> (nat, handler_state) collab" where
  "ref_collab S models =
     \<lparr>gen_uniform = ref_uniform,
      new_job_handler = ref_new_job_handler,
      workers_available = ref_workers_available,
      expand_tree = ref_expand_tree S,
      update_probability_reached = ref_update_probability_reached,
      find_max_probability_node = ref_find_max_probability_node,
      submit_job = ref_submit_job,
      get_finished_jobs = ref_get_finished_jobs models,
      update_descendants = (\<lambda>n w. Ok () w),
      check_if_node_is_available_for_decision = ref_check,
      compute_single_level_decision = ref_single_level_decision,
      get_same_level_parent = ref_get_same_level_parent,
      compute_two_level_decision = ref_two_level_decision,
      estimator_update = ref_estimator_update,
      discard_rejected_nodes = ref_discard_rejected_nodes,
      compress_resolved_subchains = (\<lambda>w. Ok () w),
      get_unique_same_subchain_child = ref_get_unique_same_subchain_child,
      print_log_header = quiet,
      log_run = (\<lambda>len. quiet),
      log_debug = (\<lambda>info node. quiet),
      print_debug_new_samples = (\<lambda>len. quiet),
      export_to_dot = (\<lambda>t a. quiet),
      logger_exception = (\<lambda>e. quiet)\<rparr>"

text \<open>
  The settings and the initial world of the examples: two levels, one worker thread unless
  said otherwise, a model that returns the log density \<open>- x\<^sup>2 / 2\<close> of a standard normal
  at every level.
\<close>

definition setup0 :: SamplerSetupSettings where
  "setup0 =
     \<lparr>num_levels = 2, subsampling_rates = [3, - 1], max_tree_height = 5,
      underflow_threshold = - 1000, rng_seed_mltree = 0, rng_seed_node_init = 0\<rparr>"

definition run0 :: "int \<Rightarrow> int \<Rightarrow> SamplerRunSettings" where
  "run0 n threads =
     \<lparr>num_samples = n, initial_state = [0], num_threads = threads, print_interval = 1,
      tree_render_interval = 1\<rparr>"

definition normal_model :: "int \<Rightarrow> vec \<Rightarrow> real" where
  "normal_model l x = - (sum_list (map (\<lambda>c. c * c) x)) / 2"

definition world0 :: rworld where
  "world0 =
     \<lparr>tree = Tr 0 [],
      attrs = (\<lambda>n. \<lparr>name = [], state = [], level = 0, subchain_index = 0, random_draw = 0,
                    logposterior = None, probability_reached = None\<rparr>),
      next_id = 0,
      ground_proposal_rng = 0,
      mltree_modifier_rng = 1,
      rng_node_init = 2,
      gens = (\<lambda>a. 0),
      ext = \<lparr>in_flight = [], workers = 0, accept_rates = [1 / 2, 4 / 5], eta = 1 / 100\<rparr>\<rparr>"








section \<open>Properties of utilities.py\<close>

lemma digit_char_not_sep: "d < 10 \<Longrightarrow> digit_char d \<noteq> CHR ''/''"
proof -
  assume "d < 10"
  then have "d \<in> {0, 1, 2, 3, 4, 5, 6, 7, 8, 9}" by auto
  then show ?thesis by (auto simp: digit_char_def)
qed

lemma str_nat_no_sep: "CHR ''/'' \<notin> set (str_nat n)"
proof (induction n rule: str_nat.induct)
  case (1 n)
  show ?case
  proof (cases "n < 10")
    case True
    then show ?thesis using digit_char_not_sep [of n] by simp
  next
    case False
    have "n mod 10 < 10" by simp
    then have "digit_char (n mod 10) \<noteq> CHR ''/''" by (rule digit_char_not_sep)
    with False "1.IH" show ?thesis by (subst str_nat.simps) auto
  qed
qed

lemma str_int_no_sep: "CHR ''/'' \<notin> set (str_int i)"
  by (simp add: str_int_def str_nat_no_sep del: str_nat.simps)

lemma append_string_to_path_keyed:
  assumes "valid_stem p" and "CHR ''/'' \<notin> set sfx"
  shows "append_string_to_path p (str_int i @ sfx) = Inr (keyed_file p i sfx)"
proof -
  let ?n = "path_name p @ ''_'' @ str_int i @ sfx"
  have len: "2 \<le> length ?n"
    using assms(1) by (cases "last p") (simp_all add: valid_stem_def path_name_def)
  have "?n \<noteq> ''.''"
  proof
    assume "?n = ''.''"
    then have "length ?n = 1" by simp
    with len show False by simp
  qed
  moreover have "?n \<noteq> []" by simp
  moreover have "CHR ''/'' \<notin> set ?n"
    using assms str_int_no_sep [of i] by (simp add: valid_stem_def path_name_def)
  moreover have "path_name p \<noteq> []"
    using assms(1) by (simp add: valid_stem_def path_name_def)
  ultimately show ?thesis
    unfolding append_string_to_path_def with_name_def keyed_file_def by simp
qed

lemma save_pickle_keyed:
  assumes "valid_stem p"
  shows "save_pickle i p obj ok f =
           (case makedirs (path_parent p) ok f of
              Inl e \<Rightarrow> Inl e
            | Inr f1 \<Rightarrow> Inr (f1\<lparr>files := (files f1)(keyed_file p i ''.pkl'' \<mapsto> Pkl obj)\<rparr>))"
  using append_string_to_path_keyed [OF assms, of "''.pkl''" i]
  by (simp add: save_pickle_def split: sum.splits)

lemma load_pickle_keyed:
  assumes "valid_stem p"
  shows "load_pickle i p f =
           (case files f (keyed_file p i ''.pkl'') of
              None \<Rightarrow> Inl FileNotFoundError
            | Some (Pkl obj) \<Rightarrow> Inr obj
            | Some (Npy c) \<Rightarrow> Inl UnpicklingError)"
  using append_string_to_path_keyed [OF assms, of "''.pkl''" i]
  by (simp add: load_pickle_def)

text \<open>
  Claim C10. With a single integer as the configured seed,
  \<open>distribute_rng_seeds_to_processes\<close> returns the product of the seed and the process
  index; so process 0 gets the seed 0 whatever the configured integer is, and with the
  configured integer 0 every process gets the seed 0.
\<close>

theorem distribute_int_seed:
  "distribute_rng_seeds_to_processes (SeedInt s) process_id = Inr (s * process_id)
   \<and> distribute_rng_seeds_to_processes (SeedInt s) 0 = Inr 0
   \<and> distribute_rng_seeds_to_processes (SeedInt 0) process_id = Inr 0"
  by simp

text \<open>
  Claim C8. For a path whose last component is the stem (a path with a name, as pathlib
  builds it: not empty, without separator) and every process index \<open>i\<close>, \<open>save_chain\<close>
  writes the chain to the file \<open><stem>_<i>.npy\<close> beside the stem, \<open>save_node\<close> and
  \<open>save_rng_states\<close> write to \<open><stem>_<i>.pkl\<close>, they write nothing else, and the load
  functions read the files of the same names.
\<close>

theorem artifacts_keyed_by_stem_and_index:
  assumes "valid_stem p"
  shows "save_chain i p c ok f =
           (case makedirs (path_parent p) ok f of
              Inl e \<Rightarrow> Inl e
            | Inr f1 \<Rightarrow> Inr (f1\<lparr>files := (files f1)(keyed_file p i ''.npy'' \<mapsto> Npy c)\<rparr>))
       \<and> save_node i p obj ok f =
           (case makedirs (path_parent p) ok f of
              Inl e \<Rightarrow> Inl e
            | Inr f1 \<Rightarrow> Inr (f1\<lparr>files := (files f1)(keyed_file p i ''.pkl'' \<mapsto> Pkl obj)\<rparr>))
       \<and> save_rng_states i p obj ok f =
           (case makedirs (path_parent p) ok f of
              Inl e \<Rightarrow> Inl e
            | Inr f1 \<Rightarrow> Inr (f1\<lparr>files := (files f1)(keyed_file p i ''.pkl'' \<mapsto> Pkl obj)\<rparr>))
       \<and> load_chain i p f =
           (case files f (keyed_file p i ''.npy'') of
              None \<Rightarrow> Inl FileNotFoundError
            | Some (Npy c') \<Rightarrow> Inr c'
            | Some (Pkl _) \<Rightarrow> Inl ValueError)
       \<and> load_node i p f =
           (case files f (keyed_file p i ''.pkl'') of
              None \<Rightarrow> Inl FileNotFoundError
            | Some (Pkl obj') \<Rightarrow> Inr obj'
            | Some (Npy _) \<Rightarrow> Inl UnpicklingError)
       \<and> load_rng_states i p f = load_node i p f"
proof -
  have npy: "append_string_to_path p (str_int i @ ''.npy'') = Inr (keyed_file p i ''.npy'')"
    using assms by (rule append_string_to_path_keyed) simp
  have "save_chain i p c ok f =
           (case makedirs (path_parent p) ok f of
              Inl e \<Rightarrow> Inl e
            | Inr f1 \<Rightarrow> Inr (f1\<lparr>files := (files f1)(keyed_file p i ''.npy'' \<mapsto> Npy c)\<rparr>))"
    using npy by (simp add: save_chain_def split: sum.splits)
  moreover have "load_chain i p f =
           (case files f (keyed_file p i ''.npy'') of
              None \<Rightarrow> Inl FileNotFoundError
            | Some (Npy c') \<Rightarrow> Inr c'
            | Some (Pkl _) \<Rightarrow> Inl ValueError)"
    using npy by (simp add: load_chain_def)
  moreover have "save_node i p obj ok f =
           (case makedirs (path_parent p) ok f of
              Inl e \<Rightarrow> Inl e
            | Inr f1 \<Rightarrow> Inr (f1\<lparr>files := (files f1)(keyed_file p i ''.pkl'' \<mapsto> Pkl obj)\<rparr>))"
    unfolding save_node_def by (rule save_pickle_keyed [OF assms])
  moreover have "save_rng_states i p obj ok f =
           (case makedirs (path_parent p) ok f of
              Inl e \<Rightarrow> Inl e
            | Inr f1 \<Rightarrow> Inr (f1\<lparr>files := (files f1)(keyed_file p i ''.pkl'' \<mapsto> Pkl obj)\<rparr>))"
    unfolding save_rng_states_def by (rule save_pickle_keyed [OF assms])
  moreover have "load_node i p f =
           (case files f (keyed_file p i ''.pkl'') of
              None \<Rightarrow> Inl FileNotFoundError
            | Some (Pkl obj') \<Rightarrow> Inr obj'
            | Some (Npy _) \<Rightarrow> Inl UnpicklingError)"
    unfolding load_node_def by (rule load_pickle_keyed [OF assms])
  moreover have "load_rng_states i p f = load_node i p f"
    by (simp add: load_node_def load_rng_states_def)
  ultimately show ?thesis by blast
qed

theorem artifacts_keyed_by_stem_and_index_witness:
  "valid_stem [''results'', ''chain'']
   \<and> keyed_file [''results'', ''chain''] 3 ''.npy'' = [''results'', ''chain_3.npy'']
   \<and> save_chain 3 [''results'', ''chain''] [[1::int]] True
        (\<lparr>dirs = [], files = Map.empty\<rparr> :: (int list list, nat) fs)
      = Inr \<lparr>dirs = [[], [''results'']],
             files = [[''results'', ''chain_3.npy''] \<mapsto> Npy [[1]]]\<rparr>
   \<and> save_node 12 [''results'', ''final_node''] (7::nat) True
        (\<lparr>dirs = [], files = Map.empty\<rparr> :: (int list list, nat) fs)
      = Inr \<lparr>dirs = [[], [''results'']],
             files = [[''results'', ''final_node_12.pkl''] \<mapsto> Pkl 7]\<rparr>"
proof -
  have v1: "valid_stem [''results'', ''chain'']" by (simp add: valid_stem_def)
  have v2: "valid_stem [''results'', ''final_node'']" by (simp add: valid_stem_def)
  have s1: "save_chain 3 [''results'', ''chain''] [[1::int]] True
        (\<lparr>dirs = [], files = Map.empty\<rparr> :: (int list list, nat) fs)
      = Inr \<lparr>dirs = [[], [''results'']],
             files = [[''results'', ''chain_3.npy''] \<mapsto> Npy [[1]]]\<rparr>"
    using artifacts_keyed_by_stem_and_index [OF v1, of 3 "[[1::int]]" True
        "\<lparr>dirs = [], files = Map.empty\<rparr>" "0::nat"]
    by (simp add: keyed_file_def path_name_def path_parent_def str_int_def digit_char_def
        makedirs_def ancestors_def upt_rec)
  have s2: "save_node 12 [''results'', ''final_node''] (7::nat) True
        (\<lparr>dirs = [], files = Map.empty\<rparr> :: (int list list, nat) fs)
      = Inr \<lparr>dirs = [[], [''results'']],
             files = [[''results'', ''final_node_12.pkl''] \<mapsto> Pkl 7]\<rparr>"
    using artifacts_keyed_by_stem_and_index [OF v2, of 12 "[]::int list list" True
        "\<lparr>dirs = [], files = Map.empty\<rparr>" "7::nat"]
    by (simp add: keyed_file_def path_name_def path_parent_def str_int_def digit_char_def
        makedirs_def ancestors_def upt_rec)
  have k: "keyed_file [''results'', ''chain''] 3 ''.npy'' = [''results'', ''chain_3.npy'']"
    by (simp add: keyed_file_def path_name_def path_parent_def str_int_def digit_char_def)
  from v1 k s1 s2 show ?thesis by simp
qed

section \<open>Properties of the sampler\<close>

subsection \<open>Outcomes and the growth of the chain\<close>

lemma res_all_bnd:
  assumes "res_all P m" and "\<And>a s. m = Ok a s \<Longrightarrow> res_all P (f a s)"
  shows "res_all P (bnd m f)"
  using assms by (cases m) (simp_all add: bnd_def res_all_def)

lemma grows_refl: "grows d d"
  unfolding grows_def by (rule exI [of _ "[]"]) simp

lemma grows_trans: "grows d1 d2 \<Longrightarrow> grows d2 d3 \<Longrightarrow> grows d1 d3"
  unfolding grows_def
proof (elim exE conjE)
  fix ws vs
  assume "mcmc_chain d2 = mcmc_chain d1 @ map root_state ws" "root_log d2 = root_log d1 @ ws"
    "mcmc_chain d3 = mcmc_chain d2 @ map root_state vs" "root_log d3 = root_log d2 @ vs"
  then have "mcmc_chain d3 = mcmc_chain d1 @ map root_state (ws @ vs)
      \<and> root_log d3 = root_log d1 @ (ws @ vs)" by simp
  then show "\<exists>us. mcmc_chain d3 = mcmc_chain d1 @ map root_state us
      \<and> root_log d3 = root_log d1 @ us" by blast
qed

lemma grows_same:
  "mcmc_chain d' = mcmc_chain d \<Longrightarrow> root_log d' = root_log d \<Longrightarrow> grows d0 d \<Longrightarrow> grows d0 d'"
  by (simp add: grows_def)

lemma lift_grows: "grows d0 d \<Longrightarrow> res_all (grows d0) (lift d outer m)"
  by (cases m) (auto simp: lift_def res_all_def elim: grows_same [rotated 2])

lemma lift_Ok_grows: "grows d0 d \<Longrightarrow> lift d outer m = Ok a s \<Longrightarrow> grows d0 s"
  using lift_grows [of d0 d outer m] by (simp add: res_all_def)

lemma grows_append_root_state: "grows d0 d \<Longrightarrow> grows d0 (append_root_state d)"
proof -
  assume "grows d0 d"
  moreover have "grows d (append_root_state d)"
    unfolding grows_def append_root_state_def by (rule exI [of _ "[wld d]"]) simp
  ultimately show ?thesis by (rule grows_trans)
qed

lemma grows_promote: "grows d0 d \<Longrightarrow> grows d0 (promote c d)"
  by (erule grows_same [rotated 2]) (simp_all add: promote_def)

lemma propagate_chain_grows:
  "grows d0 d \<Longrightarrow> res_all (grows d0) (propagate_chain C R k outer d)"
proof (induction k arbitrary: d outer)
  case 0
  show ?case
    unfolding propagate_chain.simps
  proof (rule res_all_bnd)
    show "res_all (grows d0) (lift d outer (get_unique_same_subchain_child C (wld d)))"
      using "0.prems" by (rule lift_grows)
  next
    fix a s
    assume "lift d outer (get_unique_same_subchain_child C (wld d)) = Ok a s"
    with "0.prems" have "grows d0 s" by (rule lift_Ok_grows)
    then show "res_all (grows d0) (case a of None \<Rightarrow> Ok () s | Some x \<Rightarrow> Hang)"
      by (cases a) (simp_all add: res_all_def)
  qed
next
  case (Suc k)
  show ?case
    unfolding propagate_chain.simps
  proof (rule res_all_bnd)
    show "res_all (grows d0) (lift d outer (get_unique_same_subchain_child C (wld d)))"
      using Suc.prems by (rule lift_grows)
  next
    fix a d1
    assume "lift d outer (get_unique_same_subchain_child C (wld d)) = Ok a d1"
    with Suc.prems have g1: "grows d0 d1" by (rule lift_Ok_grows)
    show "res_all (grows d0)
            (case a of
               None \<Rightarrow> Ok () d1
             | Some c \<Rightarrow>
                 let d2 = append_root_state d1
                 in bnd (lift d2 outer (log_run_statistics C R (length (mcmc_chain d2)) (wld d2)))
                      (\<lambda>_ d3.
                          let outer' = outer_after outer c d3; d4 = promote c d3
                          in bnd (lift d4 outer'
                                    (on_ext (print_debug_new_samples C (length (mcmc_chain d4)))
                                       (wld d4)))
                               (\<lambda>_ d5.
                                   bnd (lift d5 outer' (export_debug_tree C (wld d5)))
                                     (\<lambda>_ d6. propagate_chain C R k outer' d6))))"
    proof (cases a)
      case None
      with g1 show ?thesis by (simp add: res_all_def)
    next
      case (Some c)
      have g2: "grows d0 (append_root_state d1)" using g1 by (rule grows_append_root_state)
      show ?thesis
        unfolding Some option.case Let_def
      proof (rule res_all_bnd [OF lift_grows [OF g2]])
        fix u d3
        assume "lift (append_root_state d1) outer
                  (log_run_statistics C R (length (mcmc_chain (append_root_state d1)))
                     (wld (append_root_state d1))) = Ok u d3"
        with g2 have g3: "grows d0 d3" by (rule lift_Ok_grows)
        have g4: "grows d0 (promote c d3)" using g3 by (rule grows_promote)
        show "res_all (grows d0)
                (bnd (lift (promote c d3) (outer_after outer c d3)
                        (on_ext (print_debug_new_samples C (length (mcmc_chain (promote c d3))))
                           (wld (promote c d3))))
                   (\<lambda>_ d5.
                       bnd (lift d5 (outer_after outer c d3) (export_debug_tree C (wld d5)))
                         (\<lambda>_ d6. propagate_chain C R k (outer_after outer c d3) d6)))"
        proof (rule res_all_bnd [OF lift_grows [OF g4]])
          fix v d5
          assume "lift (promote c d3) (outer_after outer c d3)
                    (on_ext (print_debug_new_samples C (length (mcmc_chain (promote c d3))))
                       (wld (promote c d3))) = Ok v d5"
          with g4 have g5: "grows d0 d5" by (rule lift_Ok_grows)
          show "res_all (grows d0)
                  (bnd (lift d5 (outer_after outer c d3) (export_debug_tree C (wld d5)))
                     (\<lambda>_ d6. propagate_chain C R k (outer_after outer c d3) d6))"
          proof (rule res_all_bnd [OF lift_grows [OF g5]])
            fix x d6
            assume "lift d5 (outer_after outer c d3) (export_debug_tree C (wld d5)) = Ok x d6"
            with g5 have "grows d0 d6" by (rule lift_Ok_grows)
            then show "res_all (grows d0) (propagate_chain C R k (outer_after outer c d3) d6)"
              by (rule Suc.IH)
          qed
        qed
      qed
    qed
  qed
qed


lemma bnd_Exn_iff:
  "bnd m f = Exn e t \<longleftrightarrow> m = Exn e t \<or> (\<exists>a s. m = Ok a s \<and> f a s = Exn e t)"
  by (cases m) (auto simp: bnd_def)

lemma iteration_grows: "grows d0 d \<Longrightarrow> res_all (grows d0) (iteration C S R fuel d)"
  unfolding iteration_def
proof (rule res_all_bnd)
  assume "grows d0 d"
  then show "res_all (grows d0) (lift d None (iteration_phases C S fuel (wld d)))"
    by (rule lift_grows)
next
  fix a d1
  assume "grows d0 d" and "lift d None (iteration_phases C S fuel (wld d)) = Ok a d1"
  then have "grows d0 d1" by (rule lift_Ok_grows)
  then show "res_all (grows d0) (propagate_chain C R fuel None d1)"
    by (rule propagate_chain_grows)
qed

lemma main_loop_grows: "grows d0 d \<Longrightarrow> res_all (grows d0) (main_loop C S R k d)"
proof (induction k arbitrary: d)
  case 0
  show ?case by (simp add: res_all_def)
next
  case (Suc k)
  show ?case
    unfolding main_loop.simps
  proof (rule res_all_bnd [OF iteration_grows [OF Suc.prems]])
    fix a d2
    assume "iteration C S R (Suc k) d = Ok a d2"
    with iteration_grows [OF Suc.prems, of C S R "Suc k"]
    have g: "grows d0 d2" by (simp add: res_all_def)
    show "res_all (grows d0)
            (if num_samples R \<le> int (length (mcmc_chain d2)) then Ok () d2
             else main_loop C S R k d2)"
      using g Suc.IH [OF g] by (simp add: res_all_def)
  qed
qed


lemma try_body_grows: "res_all (grows d) (try_body C S R fuel d)"
proof (cases "num_threads R \<le> 0")
  case True
  then show ?thesis by (simp add: try_body_def res_all_def grows_refl)
next
  case False
  have g0: "grows d d" by (rule grows_refl)
  have "res_all (grows d)
          (bnd (lift d None (new_job_handler C (num_threads R) (wld d))) (\<lambda>_ d1.
           bnd (lift d1 None (on_ext (print_log_header C) (wld d1))) (\<lambda>_ d2.
           bnd (lift d2 None (on_ext (log_run C (length (mcmc_chain d2))) (wld d2))) (\<lambda>_ d3.
           main_loop C S R fuel d3))))"
  proof (rule res_all_bnd [OF lift_grows [OF g0]])
    fix a d1
    assume "lift d None (new_job_handler C (num_threads R) (wld d)) = Ok a d1"
    with g0 have g1: "grows d d1" by (rule lift_Ok_grows)
    show "res_all (grows d)
            (bnd (lift d1 None (on_ext (print_log_header C) (wld d1))) (\<lambda>_ d2.
             bnd (lift d2 None (on_ext (log_run C (length (mcmc_chain d2))) (wld d2))) (\<lambda>_ d3.
             main_loop C S R fuel d3)))"
    proof (rule res_all_bnd [OF lift_grows [OF g1]])
      fix b d2
      assume "lift d1 None (on_ext (print_log_header C) (wld d1)) = Ok b d2"
      with g1 have g2: "grows d d2" by (rule lift_Ok_grows)
      show "res_all (grows d)
              (bnd (lift d2 None (on_ext (log_run C (length (mcmc_chain d2))) (wld d2)))
                 (\<lambda>_ d3. main_loop C S R fuel d3))"
      proof (rule res_all_bnd [OF lift_grows [OF g2]])
        fix c d3
        assume "lift d2 None (on_ext (log_run C (length (mcmc_chain d2))) (wld d2)) = Ok c d3"
        with g2 have "grows d d3" by (rule lift_Ok_grows)
        then show "res_all (grows d) (main_loop C S R fuel d3)" by (rule main_loop_grows)
      qed
    qed
  qed
  with False show ?thesis by (simp add: try_body_def)
qed





lemma chain_from_start:
  assumes "grows (start R w1) d"
  shows "mcmc_chain d \<noteq> [] \<and> hd (mcmc_chain d) = initial_state R"
  using assms by (auto simp: grows_def start_def)



text \<open>
  Claim C7. \<open>set_rngs(get_rngs())\<close> changes nothing: the sampler refers to the same three
  generator objects as before, the generators themselves are untouched, and a run
  started after the pair is the run started without it.
\<close>

theorem set_rngs_get_rngs_noop:
  "set_rngs (get_rngs w) w = w
   \<and> get_rngs (set_rngs (get_rngs w) w) = get_rngs w
   \<and> gens (set_rngs (get_rngs w) w) = gens w
   \<and> run C S R fuel (set_rngs (get_rngs w) w) = run C S R fuel w"
  by (simp add: set_rngs_def get_rngs_def)

subsection \<open>Evaluating the sampler on the collaborators of the specification\<close>

lemmas sampler_defs =
  run_def completes_normally_def init_mltree_def try_body_def start_def handler_def
  iteration_def iteration_phases_def may_extend_def extend_once_def
  update_tree_from_finished_jobs_def update_from_job_def
  set_logposterior_def set_parent_None_def
  compute_available_mcmc_decisions_def apply_decision_def decide_def
  append_root_state_def promote_def outer_after_def root_state_def
  lift_def on_ext_def bnd_def export_debug_tree_def log_debug_statistics_def
  log_debug_candidate_def log_run_statistics_def level_groups_def

lemmas ref_defs =
  ref_collab_def ref_uniform_def draw_def ref_new_job_handler_def ref_workers_available_def
  ref_submit_job_def ref_get_finished_jobs_def ref_expand_tree_def spawn_def
  attach_def ref_update_probability_reached_def rate_of_def reached_def
  ref_find_max_probability_node_def ref_check_def parent_of_def same_level_parent_of_def
  known_def ref_get_unique_same_subchain_child_def quiet_def py_index_def
  setup0_def run0_def normal_model_def world0_def

subsection \<open>The chain returned by run\<close>

text \<open>
  Claim C9. The chain that \<open>run\<close> returns is never empty and its first element is
  \<open>run_settings.initial_state\<close>, whether the body of the \<open>try\<close> statement returned or
  raised.
\<close>

theorem returned_chain_starts_with_initial_state:
  assumes "run C S R fuel w = Returned chain"
  shows "chain \<noteq> [] \<and> hd chain = initial_state R"
proof (cases "init_mltree C S (initial_state R) w")
  case (Ok u w1)
  have g: "res_all (grows (start R w1)) (try_body C S R fuel (start R w1))"
    by (rule try_body_grows)
  show ?thesis
  proof (cases "try_body C S R fuel (start R w1)")
    case (Ok v d)
    with g have "grows (start R w1) d" by (simp add: res_all_def)
    then have "mcmc_chain d \<noteq> [] \<and> hd (mcmc_chain d) = initial_state R"
      by (rule chain_from_start)
    moreover from assms Ok \<open>init_mltree C S (initial_state R) w = Ok u w1\<close>
    have "chain = mcmc_chain d" by (simp add: run_def)
    ultimately show ?thesis by simp
  next
    case (Exn e d)
    with g have "grows (start R w1) d" by (simp add: res_all_def)
    then have "mcmc_chain d \<noteq> [] \<and> hd (mcmc_chain d) = initial_state R"
      by (rule chain_from_start)
    moreover from assms Exn \<open>init_mltree C S (initial_state R) w = Ok u w1\<close>
    have "chain = mcmc_chain d" by (simp add: run_def split: res.splits)
    ultimately show ?thesis by simp
  next
    case Hang
    with assms \<open>init_mltree C S (initial_state R) w = Ok u w1\<close> show ?thesis
      by (simp add: run_def)
  qed
next
  case (Exn e w1)
  with assms show ?thesis by (simp add: run_def)
next
  case Hang
  with assms show ?thesis by (simp add: run_def)
qed

theorem returned_chain_starts_with_initial_state_witness:
  "run (ref_collab setup0 normal_model) setup0 (run0 3 0) 5 world0 = Returned [[0]]
   \<and> [[0]] \<noteq> ([] :: vec list) \<and> hd [[0]] = initial_state (run0 3 0)"
proof -
  have r: "run (ref_collab setup0 normal_model) setup0 (run0 3 0) 5 world0 = Returned [[0]]"
    by (simp add: sampler_defs ref_defs)
  from r returned_chain_starts_with_initial_state [OF r] show ?thesis by simp
qed





text \<open>
  Claim C2, as the specification states it, fails: the tree is initialised before the
  \<open>try\<close> statement, and an exception raised there (here a \<open>KeyboardInterrupt\<close> that
  arrives during the draw of the root's random number) reaches the caller.
\<close>

theorem run_propagates_exception_of_init:
  "run ((ref_collab setup0 normal_model)\<lparr>gen_uniform := (\<lambda>g. Exn KeyboardInterrupt g)\<rparr>)
     setup0 (run0 3 1) 5 world0 = Propagated KeyboardInterrupt"
  by (simp add: run_def init_mltree_def ref_collab_def world0_def)

text \<open>
  Claim C2, amended. Once the tree is initialised, \<open>run\<close> propagates no exception:
  whenever the body of the \<open>try\<close> statement returns or raises, whatever the exception,
  and the handler's own calls come back, \<open>run\<close> returns the chain as it is at that
  moment.
\<close>

theorem run_returns_chain_after_init:
  assumes "init_mltree C S (initial_state R) w = Ok u w1"
  shows "run C S R fuel w \<noteq> Propagated e
       \<and> (try_body C S R fuel (start R w1) = Ok v d
            \<longrightarrow> run C S R fuel w = Returned (mcmc_chain d))
       \<and> (try_body C S R fuel (start R w1) = Exn e d \<and> handler C e (wld d) \<noteq> Hang
            \<longrightarrow> run C S R fuel w = Returned (mcmc_chain d))"
  using assms by (auto simp: run_def split: res.splits)

theorem run_returns_chain_after_init_witness:
  "run (ref_collab setup0 normal_model) setup0 ((run0 3 1)\<lparr>print_interval := 0\<rparr>) 1 world0
     = Returned [[0], [0]]
   \<and> run (ref_collab setup0 normal_model) setup0 ((run0 3 1)\<lparr>print_interval := 0\<rparr>) 1 world0
     \<noteq> Propagated ZeroDivisionError"
proof -
  let ?C = "ref_collab setup0 normal_model"
  let ?R = "(run0 3 1)\<lparr>print_interval := 0\<rparr>"
  let ?w1 = "case init_mltree ?C setup0 (initial_state ?R) world0 of Ok _ w \<Rightarrow> w | _ \<Rightarrow> world0"
  let ?d = "case try_body ?C setup0 ?R 1 (start ?R ?w1) of Exn _ d \<Rightarrow> d | _ \<Rightarrow> start ?R ?w1"
  have i: "init_mltree ?C setup0 (initial_state ?R) world0 = Ok () ?w1"
    by (simp add: sampler_defs ref_defs)
  have t: "try_body ?C setup0 ?R 1 (start ?R ?w1) = Exn ZeroDivisionError ?d"
    by (simp add: sampler_defs ref_defs)
  have h: "handler ?C ZeroDivisionError (wld ?d) \<noteq> Hang"
    by (simp add: sampler_defs ref_defs)
  have c: "mcmc_chain ?d = [[0], [0]]"
    by (simp add: sampler_defs ref_defs)
  from run_returns_chain_after_init [OF i, of 1 ZeroDivisionError "()" ?d] t h c
  show ?thesis by simp
qed



subsection \<open>Harvesting: underflow and stored results\<close>





















subsection \<open>Extending the tree and the height bound\<close>






end
